theory Spec2Isabelle
  imports Complex_Main "HOL-Library.List_Lexorder"
begin

section \<open>Text\<close>

text \<open>
  A Python \<open>str\<close> is a sequence of Unicode code points; a code point is a natural
  number. The tables of the Unicode database that the standard library consults
  (case mapping, digit classes, normalisation) are not part of the repository: they are
  the fields of \<open>pylib\<close>, and every function that calls into them takes the record.
\<close>

type_synonym ustring = "nat list"

text \<open>A string literal of the source, for ASCII text.\<close>

definition ustr :: "string \<Rightarrow> ustring" where
  "ustr = map of_char"

record pylib =
  lower :: "ustring \<Rightarrow> ustring"
  upper :: "ustring \<Rightarrow> ustring"
  isdigit :: "nat \<Rightarrow> bool"
  decimal :: "nat \<Rightarrow> nat option"
  nfkc :: "ustring \<Rightarrow> ustring"

text \<open>The characters that \<open>str.isspace\<close>, \<open>str.strip\<close> and \<open>str.split\<close> treat as whitespace.\<close>

definition isspace :: "nat \<Rightarrow> bool" where
  "isspace c \<longleftrightarrow>
     (9 \<le> c \<and> c \<le> 13) \<or> (28 \<le> c \<and> c \<le> 32) \<or> c = 133 \<or> c = 160 \<or> c = 5760 \<or>
     (8192 \<le> c \<and> c \<le> 8202) \<or> c = 8232 \<or> c = 8233 \<or> c = 8239 \<or> c = 8287 \<or> c = 12288"

text \<open>Dropping the leading and the trailing characters of a class.\<close>

definition trim :: "(nat \<Rightarrow> bool) \<Rightarrow> ustring \<Rightarrow> ustring" where
  "trim P s = rev (dropWhile P (rev (dropWhile P s)))"

definition strip :: "ustring \<Rightarrow> ustring" where
  "strip s = trim isspace s"

text \<open>\<open>s.isdigit()\<close>: at least one character, and every character a digit.\<close>

definition str_isdigit :: "'a pylib_scheme \<Rightarrow> ustring \<Rightarrow> bool" where
  "str_isdigit L s \<longleftrightarrow> s \<noteq> [] \<and> list_all (isdigit L) s"

fun startswith :: "ustring \<Rightarrow> ustring \<Rightarrow> bool" where
  "startswith s [] = True"
| "startswith [] (p # ps) = False"
| "startswith (c # cs) (p # ps) = (c = p \<and> startswith cs ps)"

text \<open>\<open>p in s\<close> for strings: \<open>p\<close> occurs in \<open>s\<close> as a contiguous run.\<close>

fun contains :: "ustring \<Rightarrow> ustring \<Rightarrow> bool" where
  "contains [] p = (p = [])"
| "contains (c # cs) p = (startswith (c # cs) p \<or> contains cs p)"

section \<open>Values and exceptions\<close>

text \<open>
  The values a table cell or a roster field can hold: an integer, a string, a float
  (finite, NaN, or an infinity with its sign), or \<open>None\<close>. A finite float is a rational
  number; only its truncation to an integer is ever computed.
\<close>

datatype pyval = PInt int | PStr ustring | PFloat rat | PNaN | PInf bool | PNone

datatype error = ValueError | TypeError | OverflowError | AttributeError | IndexError | FetchError

section \<open>Numeric coercion: \<open>safe_int\<close>\<close>

text \<open>
  \<open>int(x)\<close> on a string: surrounding whitespace is dropped, an optional sign follows,
  then decimal digits, where single underscores may separate digits. ASCII digits have
  their usual value; the decimal digits of other scripts are read from the library table.
\<close>

definition int_space :: "nat \<Rightarrow> bool" where
  "int_space c \<longleftrightarrow> isspace c \<and> \<not> (28 \<le> c \<and> c \<le> 31)"

definition digit_value :: "'a pylib_scheme \<Rightarrow> nat \<Rightarrow> nat option" where
  "digit_value L c =
     (if c < 128 then (if 48 \<le> c \<and> c \<le> 57 then Some (c - 48) else None) else decimal L c)"

fun after_digit :: "'a pylib_scheme \<Rightarrow> ustring \<Rightarrow> nat \<Rightarrow> nat option" where
  "after_digit L [] acc = Some acc"
| "after_digit L [c] acc =
     (case digit_value L c of None \<Rightarrow> None | Some v \<Rightarrow> Some (10 * acc + v))"
| "after_digit L (c # d # ds) acc =
     (if c = 95 then
        (case digit_value L d of None \<Rightarrow> None | Some v \<Rightarrow> after_digit L ds (10 * acc + v))
      else
        (case digit_value L c of None \<Rightarrow> None | Some v \<Rightarrow> after_digit L (d # ds) (10 * acc + v)))"

definition digits_to_nat :: "'a pylib_scheme \<Rightarrow> ustring \<Rightarrow> nat option" where
  "digits_to_nat L s =
     (case s of [] \<Rightarrow> None
      | d # ds \<Rightarrow> (case digit_value L d of None \<Rightarrow> None | Some v \<Rightarrow> after_digit L ds v))"

definition int_of_str :: "'a pylib_scheme \<Rightarrow> ustring \<Rightarrow> error + int" where
  "int_of_str L s =
     (let t = trim int_space s
      in case t of [] \<Rightarrow> Inl ValueError
         | c # cs \<Rightarrow>
            if c = 45 then
              (case digits_to_nat L cs of None \<Rightarrow> Inl ValueError | Some n \<Rightarrow> Inr (- int n))
            else if c = 43 then
              (case digits_to_nat L cs of None \<Rightarrow> Inl ValueError | Some n \<Rightarrow> Inr (int n))
            else
              (case digits_to_nat L (c # cs) of None \<Rightarrow> Inl ValueError | Some n \<Rightarrow> Inr (int n)))"

text \<open>\<open>int(x)\<close> on a float truncates towards zero; NaN and the infinities raise.\<close>

definition trunc :: "rat \<Rightarrow> int" where
  "trunc q = (if q < 0 then - \<lfloor>- q\<rfloor> else \<lfloor>q\<rfloor>)"

fun py_int :: "'a pylib_scheme \<Rightarrow> pyval \<Rightarrow> error + int" where
  "py_int L (PInt n) = Inr n"
| "py_int L (PStr s) = int_of_str L s"
| "py_int L (PFloat q) = Inr (trunc q)"
| "py_int L PNaN = Inl ValueError"
| "py_int L (PInf b) = Inl OverflowError"
| "py_int L PNone = Inl TypeError"

text \<open>
  \<open>safe_int\<close>: \<open>try: return int(x)\<close>, \<open>except Exception: return 0\<close>. Every exception of
  \<open>int\<close> is caught, so the result is always an integer.
\<close>

definition safe_int :: "'a pylib_scheme \<Rightarrow> pyval \<Rightarrow> int" where
  "safe_int L x = (case py_int L x of Inl e \<Rightarrow> 0 | Inr n \<Rightarrow> n)"




section \<open>Row extraction: \<open>fetch_player_appearances\<close>\<close>

text \<open>
  The browser is outside the repository. What it hands to the extraction code is the
  season table it selected, if any: the texts of the header cells (when the table has a
  \<open>thead\<close>) and, for every body row, the texts of its cells. One extracted row is the
  dict \<open>row_data\<close> of the source, with its seven keys.
\<close>

record season_table =
  thead :: "ustring list option"
  tbody :: "ustring list list"

record row_data =
  competition :: ustring
  pr_team :: ustring
  pr_matches :: ustring
  pr_goals :: ustring
  pr_assists :: ustring
  pr_points :: ustring
  pr_penalty :: ustring

fun bind_err :: "error + 'a \<Rightarrow> ('a \<Rightarrow> error + 'b) \<Rightarrow> error + 'b" where
  "bind_err (Inl e) f = Inl e"
| "bind_err (Inr x) f = f x"

definition headers_of :: "season_table \<Rightarrow> ustring list" where
  "headers_of t = (case thead t of None \<Rightarrow> [] | Some ths \<Rightarrow> map strip ths)"

text \<open>\<open>{h.lower(): i for i, h in enumerate(headers)}\<close>: a later duplicate overwrites.\<close>

definition col_map :: "'a pylib_scheme \<Rightarrow> ustring list \<Rightarrow> (ustring \<rightharpoonup> nat)" where
  "col_map L headers = fold (\<lambda>(i, h) m. m(lower L h \<mapsto> i)) (enumerate 0 headers) Map.empty"

text \<open>\<open>tds[i].inner_text().strip()\<close>; an index past the row raises.\<close>

definition td_text :: "ustring list \<Rightarrow> nat \<Rightarrow> error + ustring" where
  "td_text tds i = (if i < length tds then Inr (strip (tds ! i)) else Inl IndexError)"

text \<open>
  One entry of the dict:
  \<open>tds[col_map.get(key, dflt)].inner_text().strip() if key in col_map else ""\<close>.
\<close>

definition field_of :: "(ustring \<rightharpoonup> nat) \<Rightarrow> ustring \<Rightarrow> nat \<Rightarrow> ustring list \<Rightarrow> error + ustring" where
  "field_of cm key dflt tds =
     (if cm key \<noteq> None then td_text tds (case cm key of None \<Rightarrow> dflt | Some i \<Rightarrow> i)
      else Inr [])"

text \<open>
  The header names the fields are looked up under, as the source writes them in lower
  case: the Swedish words for competition (its second letter is U+00E4), team (lag),
  matches (ma), goals (m and U+00E5), assists (ass), points (p) and penalty (utv).
\<close>

definition key_competition :: ustring where "key_competition = [116, 228, 118, 108, 105, 110, 103]"
definition key_team :: ustring where "key_team = ustr ''lag''"
definition key_matches :: ustring where "key_matches = ustr ''ma''"
definition key_goals :: ustring where "key_goals = [109, 229]"
definition key_assists :: ustring where "key_assists = ustr ''ass''"
definition key_points :: ustring where "key_points = ustr ''p''"
definition key_penalty :: ustring where "key_penalty = ustr ''utv''"

definition row_of :: "(ustring \<rightharpoonup> nat) \<Rightarrow> ustring list \<Rightarrow> error + row_data" where
  "row_of cm tds =
     bind_err (field_of cm key_competition 0 tds) (\<lambda>c.
     bind_err (field_of cm key_team 1 tds) (\<lambda>t.
     bind_err (field_of cm key_matches 2 tds) (\<lambda>m.
     bind_err (field_of cm key_goals 3 tds) (\<lambda>g.
     bind_err (field_of cm key_assists 4 tds) (\<lambda>a.
     bind_err (field_of cm key_points 5 tds) (\<lambda>p.
     bind_err (field_of cm key_penalty 6 tds) (\<lambda>u.
       Inr \<lparr>competition = c, pr_team = t, pr_matches = m, pr_goals = g,
            pr_assists = a, pr_points = p, pr_penalty = u\<rparr>)))))))"

text \<open>
  The loop over the body rows: a row without cells, or with fewer cells than there are
  headers, is skipped; every other row appends its dict.
\<close>

fun table_rows :: "(ustring \<rightharpoonup> nat) \<Rightarrow> nat \<Rightarrow> ustring list list \<Rightarrow> error + row_data list" where
  "table_rows cm n [] = Inr []"
| "table_rows cm n (tds # trs) =
     (if tds = [] \<or> length tds < n then table_rows cm n trs
      else bind_err (row_of cm tds) (\<lambda>r. bind_err (table_rows cm n trs) (\<lambda>rs. Inr (r # rs))))"

definition extract_rows :: "'a pylib_scheme \<Rightarrow> season_table \<Rightarrow> error + row_data list" where
  "extract_rows L t =
     (let headers = headers_of t; cm = col_map L headers
      in table_rows cm (length headers) (tbody t))"

section \<open>The roster loop of \<open>analyze_trupp\<close>\<close>

text \<open>
  One dict appended to \<open>appearances\<close>, and later one row of the data frame: the type of
  the division, of the match count and of the remaining columns changes along the way
  (text when appended; text or missing, and any cell value, after the table is read back;
  an integer match count after coercion).
\<close>

record ('d, 'm, 's) app_row =
  player :: ustring
  division :: 'd
  team :: 's
  matches :: 'm
  goals :: 's
  assists :: 's
  points :: 's
  penalty :: 's

type_synonym appearance = "(ustring, ustring, ustring) app_row"
type_synonym raw_row = "(ustring option, pyval, pyval) app_row"
type_synonym df_row = "(ustring option, int, pyval) app_row"

text \<open>
  The world outside the repository: the browser session behind
  \<open>fetch_player_appearances\<close>, which returns the season table of a page (or none) or
  raises, and the round trip of the appearance table through \<open>to_csv\<close> and \<open>read_csv\<close>.
\<close>

record world =
  browse :: "ustring \<Rightarrow> error + season_table option"
  read_back :: "appearance list \<Rightarrow> raw_row list"

definition fetch_player_appearances ::
    "'a pylib_scheme \<Rightarrow> 'b world_scheme \<Rightarrow> ustring \<Rightarrow> error + row_data list" where
  "fetch_player_appearances L W url =
     (case browse W url of
        Inl e \<Rightarrow> Inl e
      | Inr None \<Rightarrow> Inr []
      | Inr (Some t) \<Rightarrow> extract_rows L t)"

text \<open>
  A roster row: the text the label is formatted from (\<open>row.get("namn") or row.get("name")\<close>
  as the f-string renders it), the position (\<open>row.get("position", "?")\<close>: the text
  of a question mark when the roster has no such column) and the link, as the frame holds
  them.
\<close>

record roster_row =
  name_text :: ustring
  position :: pyval
  href :: pyval

datatype message =
    ColumnsDetected
  | SampleData
  | Fetching ustring
  | FailedToFetch ustring error
  | NoAppearanceRows
  | SavedAppearances ustring
  | NoDivisionData
  | SavedStackedChart ustring
  | Warning ustring int int
  | NoPlayersPerLeague
  | SavedPerLeagueChart ustring

definition BASE_URL :: ustring where
  "BASE_URL = ustr ''https://stats.innebandy.se''"

definition href_full :: "ustring \<Rightarrow> ustring" where
  "href_full h =
     (if startswith h (ustr ''/'') then BASE_URL @ h
      else if startswith h (ustr ''http'') then h
      else BASE_URL @ ustr ''/'' @ h)"

definition pos_prefix :: "'a pylib_scheme \<Rightarrow> ustring \<Rightarrow> ustring" where
  "pos_prefix L pos =
     (if contains (lower L pos) (ustr ''forw'') then ustr ''F''
      else if contains (lower L pos) (ustr ''back'') then ustr ''B''
      else if contains (lower L pos) [109, 229, 108] then ustr ''M''
      else ustr ''?'')"

text \<open>
  The filter of the inner loop:
  \<open>if not comp or comp.strip() == "" or comp.strip().isdigit(): continue\<close>.
\<close>

definition skip_row :: "'a pylib_scheme \<Rightarrow> ustring \<Rightarrow> bool" where
  "skip_row L cmp \<longleftrightarrow> cmp = [] \<or> strip cmp = [] \<or> str_isdigit L (strip cmp)"

definition appearance_of :: "ustring \<Rightarrow> row_data \<Rightarrow> appearance" where
  "appearance_of player_label pr =
     \<lparr>player = player_label, division = strip (competition pr), team = pr_team pr,
      matches = pr_matches pr, goals = pr_goals pr, assists = pr_assists pr,
      points = pr_points pr, penalty = pr_penalty pr\<rparr>"

fun collect_rows ::
    "'a pylib_scheme \<Rightarrow> ustring \<Rightarrow> row_data list \<Rightarrow> appearance list \<Rightarrow> appearance list" where
  "collect_rows L player_label [] appearances = appearances"
| "collect_rows L player_label (pr # player_rows) appearances =
     (if skip_row L (competition pr) then collect_rows L player_label player_rows appearances
      else collect_rows L player_label player_rows
             (appearances @ [appearance_of player_label pr]))"

text \<open>
  The loop over the roster. A row whose link is not a non-blank string is skipped. The
  position is lower-cased before the \<open>try\<close>: a position that is not a string raises there,
  and the run ends. A failure of the fetch is caught and reported, and the loop goes on.
\<close>

fun roster_loop ::
    "'a pylib_scheme \<Rightarrow> 'b world_scheme \<Rightarrow> roster_row list \<Rightarrow> message list \<times> appearance list \<Rightarrow>
     error + message list \<times> appearance list" where
  "roster_loop L W [] st = Inr st"
| "roster_loop L W (row # rest) (msgs, appearances) =
     (case href row of
        PStr h \<Rightarrow>
          if strip h = [] then roster_loop L W rest (msgs, appearances)
          else
            (case position row of
               PStr pos \<Rightarrow>
                 (let player_label = pos_prefix L pos @ ustr ''-'' @ name_text row
                  in case fetch_player_appearances L W (href_full h) of
                       Inl e \<Rightarrow>
                         roster_loop L W rest
                           (msgs @ [Fetching player_label, FailedToFetch player_label e], appearances)
                     | Inr player_rows \<Rightarrow>
                         roster_loop L W rest
                           (msgs @ [Fetching player_label],
                            collect_rows L player_label player_rows appearances))
             | _ \<Rightarrow> Inl AttributeError)
      | _ \<Rightarrow> roster_loop L W rest (msgs, appearances))"

section \<open>Pivot tables\<close>

text \<open>
  A data frame produced by \<open>pivot_table\<close>: its row labels, its column labels, and the
  value at each pair of labels. \<open>pivot_table\<close> groups the rows by the two keys (a row with
  a missing key belongs to no group), sorts the labels, aggregates the values of each
  group, and fills the pairs that have no row with \<open>fill_value\<close>.
\<close>

record ('i, 'c) frame =
  index :: "'i list"
  columns :: "'c list"
  cell :: "'i \<Rightarrow> 'c \<Rightarrow> int"

definition pivot_table ::
    "('r \<Rightarrow> 'i::linorder option) \<Rightarrow> ('r \<Rightarrow> 'c::linorder option) \<Rightarrow> ('r \<Rightarrow> int) \<Rightarrow>
     (int \<Rightarrow> int list \<Rightarrow> int) \<Rightarrow> int \<Rightarrow> 'r list \<Rightarrow> ('i, 'c) frame" where
  "pivot_table idx col val aggfunc fill_value df =
     (let grouped = filter (\<lambda>r. idx r \<noteq> None \<and> col r \<noteq> None) df
      in \<lparr>index = sort (remdups (List.map_filter idx grouped)),
          columns = sort (remdups (List.map_filter col grouped)),
          cell = (\<lambda>i c.
            case map val (filter (\<lambda>r. idx r = Some i \<and> col r = Some c) df) of
              [] \<Rightarrow> fill_value
            | v # vs \<Rightarrow> aggfunc v vs)\<rparr>)"

definition agg_sum :: "int \<Rightarrow> int list \<Rightarrow> int" where
  "agg_sum v vs = v + sum_list vs"

definition agg_max :: "int \<Rightarrow> int list \<Rightarrow> int" where
  "agg_max v vs = fold max vs v"

definition frame_empty :: "('i, 'c) frame \<Rightarrow> bool" where
  "frame_empty M \<longleftrightarrow> index M = [] \<or> columns M = []"

text \<open>\<open>M.loc[i].sum()\<close>: the sum of one row over all columns.\<close>

definition row_sum :: "('i, 'c) frame \<Rightarrow> 'i \<Rightarrow> int" where
  "row_sum M i = sum_list (map (cell M i) (columns M))"

text \<open>\<open>M.sum()\<close>: the sum of one column over all rows.\<close>

definition col_sum :: "('i, 'c) frame \<Rightarrow> 'c \<Rightarrow> int" where
  "col_sum M c = sum_list (map (\<lambda>i. cell M i c) (index M))"

section \<open>The analysis of the appearance table\<close>

text \<open>
  The table that comes back from the round trip has, in each row, a player label (always
  text: it starts with the position letter and a hyphen), a division that is text or
  missing, and any cell value as its match count. The checks that the data-frame library
  makes on whole columns before it applies a text method are not part of this model.
\<close>

definition coerce_matches :: "'a pylib_scheme \<Rightarrow> raw_row \<Rightarrow> df_row" where
  "coerce_matches L r =
     \<lparr>player = player r, division = division r, team = team r,
      matches = safe_int L (matches r), goals = goals r, assists = assists r,
      points = points r, penalty = penalty r\<rparr>"

text \<open>\<open>df_app["division"].str.upper() == "TOTALT"\<close>: false on a missing division.\<close>

definition is_total :: "'a pylib_scheme \<Rightarrow> df_row \<Rightarrow> bool" where
  "is_total L r = (case division r of None \<Rightarrow> False | Some d \<Rightarrow> upper L d = ustr ''TOTALT'')"

definition df_total_of :: "'a pylib_scheme \<Rightarrow> raw_row list \<Rightarrow> df_row list" where
  "df_total_of L raw = filter (is_total L) (map (coerce_matches L) raw)"

text \<open>
  The working table: the rows that are not TOTALT rows, then those with a division that
  is present and not empty and with a positive match count.
\<close>

definition df_app_of :: "'a pylib_scheme \<Rightarrow> raw_row list \<Rightarrow> df_row list" where
  "df_app_of L raw =
     filter (\<lambda>r. division r \<noteq> None \<and> division r \<noteq> Some [] \<and> matches r > 0)
       (filter (\<lambda>r. \<not> is_total L r) (map (coerce_matches L) raw))"

definition pivot_of :: "df_row list \<Rightarrow> (ustring, ustring) frame" where
  "pivot_of df_app = pivot_table (\<lambda>r. Some (player r)) division matches agg_sum 0 df_app"

text \<open>
  The validation loop: for each player of the pivot with a TOTALT row, the first such
  row's match count is compared with the sum of the player's pivot row; a difference
  prints a warning that names the player, the sum and the TOTALT count.
\<close>

definition validation :: "(ustring, ustring) frame \<Rightarrow> df_row list \<Rightarrow> message list" where
  "validation pivot df_total =
     concat (map (\<lambda>p.
       case filter (\<lambda>r. player r = p) df_total of
         [] \<Rightarrow> []
       | total_row # others \<Rightarrow>
           (let total_matches = matches total_row; sum_matches = row_sum pivot p
            in if total_matches \<noteq> sum_matches then [Warning p sum_matches total_matches]
               else [])) (index pivot))"

definition played_flag :: "df_row \<Rightarrow> int" where
  "played_flag r = (if matches r > 0 then 1 else 0)"

definition players_per_league_of :: "df_row list \<Rightarrow> (ustring, ustring) frame" where
  "players_per_league_of df_app =
     pivot_table division (\<lambda>r. Some (player r)) played_flag agg_max 0 df_app"

text \<open>
  What a run leaves behind: the lines it printed, the files it wrote (a chart with the
  frame it was drawn from), and the frame it returned.
\<close>

datatype artifact =
    AppearancesCSV ustring "appearance list"
  | StackedChart ustring "(ustring, ustring) frame"
  | PerLeagueChart ustring "(ustring, ustring) frame"

record outcome =
  printed :: "message list"
  written :: "artifact list"
  returned :: "df_row list"

text \<open>
  The second half of \<open>analyze_trupp\<close>, from the saving of the appearance table on. The
  stacked chart is drawn from \<open>pivot_plot = pivot.copy()\<close> and the second chart from
  \<open>players_per_league\<close>, each with all its rows and columns: \<open>max_divisions\<close> and
  \<open>max_leagues\<close> are parameters of the function that its body never reads. Figure sizes
  and axis ticks belong to the renderer and are left out.
\<close>

definition analyze_table ::
    "'a pylib_scheme \<Rightarrow> ustring \<Rightarrow> nat \<Rightarrow> nat \<Rightarrow> message list \<Rightarrow> appearance list \<Rightarrow>
     raw_row list \<Rightarrow> outcome" where
  "analyze_table L out_prefix max_divisions max_leagues msgs appearances raw =
     (let app_csv = out_prefix @ ustr ''appearances.csv'';
          df_total = df_total_of L raw;
          df_app = df_app_of L raw;
          pivot = pivot_of df_app
      in if frame_empty pivot then
           \<lparr>printed = msgs @ [SavedAppearances app_csv, NoDivisionData],
            written = [AppearancesCSV app_csv appearances],
            returned = df_app\<rparr>
         else
           (let pivot_plot = pivot;
                out = out_prefix @ ustr ''players_division_stack.png'';
                warnings = validation pivot df_total;
                players_per_league = players_per_league_of df_app
            in if frame_empty players_per_league then
                 \<lparr>printed = msgs @ [SavedAppearances app_csv, SavedStackedChart out] @ warnings
                             @ [NoPlayersPerLeague],
                  written = [AppearancesCSV app_csv appearances, StackedChart out pivot_plot],
                  returned = df_app\<rparr>
               else
                 (let out2 = out_prefix @ ustr ''players_per_league_stack.png''
                  in \<lparr>printed = msgs @ [SavedAppearances app_csv, SavedStackedChart out] @ warnings
                                 @ [SavedPerLeagueChart out2],
                      written = [AppearancesCSV app_csv appearances, StackedChart out pivot_plot,
                                 PerLeagueChart out2 players_per_league],
                      returned = df_app\<rparr>)))"

text \<open>
  \<open>analyze_trupp\<close>: the roster loop; with no appearance at all, a message and an empty
  frame; otherwise the table is saved, read back and analysed.
\<close>

definition analyze_trupp ::
    "'a pylib_scheme \<Rightarrow> 'b world_scheme \<Rightarrow> roster_row list \<Rightarrow> ustring \<Rightarrow> nat \<Rightarrow> nat \<Rightarrow>
     error + outcome" where
  "analyze_trupp L W trupp out_prefix max_divisions max_leagues =
     (case roster_loop L W trupp ([ColumnsDetected, SampleData], []) of
        Inl e \<Rightarrow> Inl e
      | Inr (msgs, appearances) \<Rightarrow>
          if appearances = [] then
            Inr \<lparr>printed = msgs @ [NoAppearanceRows], written = [], returned = []\<rparr>
          else
            Inr (analyze_table L out_prefix max_divisions max_leagues msgs appearances
                   (read_back W appearances)))"

text \<open>The frames that the charts of an outcome were drawn from.\<close>

definition stacked_charts :: "outcome \<Rightarrow> (ustring, ustring) frame list" where
  "stacked_charts out =
     concat (map (\<lambda>a. case a of StackedChart f M \<Rightarrow> [M] | _ \<Rightarrow> []) (written out))"

definition per_league_charts :: "outcome \<Rightarrow> (ustring, ustring) frame list" where
  "per_league_charts out =
     concat (map (\<lambda>a. case a of PerLeagueChart f M \<Rightarrow> [M] | _ \<Rightarrow> []) (written out))"

section \<open>Name normalisation: \<open>normalize_name\<close>\<close>





section \<open>Concrete inputs\<close>

text \<open>
  A library for concrete inputs: case mapping of the letters of ASCII and of Latin-1 that
  stay within Latin-1, the digits 0 to 9, no decimal digits beyond ASCII, and a
  normalisation that leaves such text as it is.
\<close>

definition latin1_lib :: pylib where
  "latin1_lib =
     \<lparr>lower = map (\<lambda>c. if (65 \<le> c \<and> c \<le> 90) \<or> (192 \<le> c \<and> c \<le> 222 \<and> c \<noteq> 215)
                          then c + 32 else c),
      upper = map (\<lambda>c. if (97 \<le> c \<and> c \<le> 122) \<or> (224 \<le> c \<and> c \<le> 254 \<and> c \<noteq> 247)
                          then c - 32 else c),
      isdigit = (\<lambda>c. 48 \<le> c \<and> c \<le> 57),
      decimal = (\<lambda>c. None),
      nfkc = (\<lambda>s. s)\<rparr>"

text \<open>
  A season table with the header row of the site (the seven header names, capitalised as
  the site shows them), and the same kind of table without a header row.
\<close>

definition example_headers :: "ustring list" where
  "example_headers =
     [[84, 228, 118, 108, 105, 110, 103], ustr ''Lag'', ustr ''MA'', [77, 197], ustr ''Ass'',
      ustr ''P'', ustr ''Utv'']"

definition headed_table :: season_table where
  "headed_table =
     \<lparr>thead = Some example_headers,
      tbody =
        [[ustr '' Div1 '', ustr ''X'', ustr ''3'', ustr ''1'', ustr ''0'', ustr ''1'', ustr ''2''],
         [ustr ''123'', ustr ''X'', ustr ''1'', ustr ''0'', ustr ''0'', ustr ''0'', ustr ''0''],
         [ustr ''  '', [], [], [], [], [], []],
         [ustr ''TOTALT'', [], ustr ''3'', ustr ''1'', ustr ''0'', ustr ''1'', ustr ''2'']]\<rparr>"

definition headerless_table :: season_table where
  "headerless_table =
     \<lparr>thead = None,
      tbody = [[ustr ''Div1'', ustr ''X'', ustr ''3'', ustr ''1'', ustr ''0'', ustr ''1'', ustr ''2'']]\<rparr>"

definition example_rows :: "row_data list" where
  "example_rows =
     [\<lparr>competition = ustr ''Div1'', pr_team = ustr ''X'', pr_matches = ustr ''3'',
       pr_goals = ustr ''1'', pr_assists = ustr ''0'', pr_points = ustr ''1'',
       pr_penalty = ustr ''2''\<rparr>,
      \<lparr>competition = ustr ''123'', pr_team = ustr ''X'', pr_matches = ustr ''1'',
       pr_goals = ustr ''0'', pr_assists = ustr ''0'', pr_points = ustr ''0'',
       pr_penalty = ustr ''0''\<rparr>,
      \<lparr>competition = [], pr_team = [], pr_matches = [], pr_goals = [], pr_assists = [],
       pr_points = [], pr_penalty = []\<rparr>,
      \<lparr>competition = ustr ''TOTALT'', pr_team = [], pr_matches = ustr ''3'',
       pr_goals = ustr ''1'', pr_assists = ustr ''0'', pr_points = ustr ''1'',
       pr_penalty = ustr ''2''\<rparr>]"

text \<open>
  Tables as they come back from the round trip (a row with its player, division and
  match count), for the validation and for the matrices.
\<close>

definition raw_of :: "ustring \<Rightarrow> ustring \<Rightarrow> int \<Rightarrow> raw_row" where
  "raw_of p d m =
     \<lparr>player = p, division = Some d, team = PStr (ustr ''X''), matches = PInt m,
      goals = PInt 0, assists = PInt 0, points = PInt 0, penalty = PInt 0\<rparr>"

definition balanced_table :: "raw_row list" where
  "balanced_table =
     [raw_of (ustr ''F-Anna'') (ustr ''A'') 10, raw_of (ustr ''F-Anna'') (ustr ''B'') 10,
      raw_of (ustr ''F-Anna'') (ustr ''TOTALT'') 20]"

definition unbalanced_table :: "raw_row list" where
  "unbalanced_table =
     [raw_of (ustr ''F-Anna'') (ustr ''A'') 10, raw_of (ustr ''F-Anna'') (ustr ''B'') 5,
      raw_of (ustr ''F-Anna'') (ustr ''TOTALT'') 20]"

definition cap_table :: "raw_row list" where
  "cap_table =
     [raw_of (ustr ''F-Anna'') (ustr ''A'') 10, raw_of (ustr ''F-Anna'') (ustr ''B'') 5,
      raw_of (ustr ''B-Bea'') (ustr ''C'') 30, raw_of (ustr ''F-Anna'') (ustr ''C'') 20,
      raw_of (ustr ''B-Bea'') (ustr ''D'') 1]"

text \<open>
  A site with two players, and the round trip of a table whose numeric cells hold
  integers: a cell that reads as an integer is one, an empty cell is missing, any other
  cell is text. Anna played in the divisions A, B and C (10, 5 and 20 matches), Bea in C
  and D (30 and 1): the match totals of A, B, C, D are 10, 5, 50, 1, and their player
  counts 1, 1, 2, 1. In the offline world every fetch fails; in the idle world every
  player has a single row with no match played.
\<close>

definition csv_cell :: "ustring \<Rightarrow> pyval" where
  "csv_cell s =
     (case int_of_str latin1_lib s of
        Inr n \<Rightarrow> PInt n
      | Inl e \<Rightarrow> if s = [] then PNaN else PStr s)"

definition csv_row :: "appearance \<Rightarrow> raw_row" where
  "csv_row a =
     \<lparr>player = player a, division = (if division a = [] then None else Some (division a)),
      team = csv_cell (team a), matches = csv_cell (matches a), goals = csv_cell (goals a),
      assists = csv_cell (assists a), points = csv_cell (points a),
      penalty = csv_cell (penalty a)\<rparr>"

definition anna_table :: season_table where
  "anna_table =
     \<lparr>thead = Some example_headers,
      tbody =
        [[ustr ''A'', ustr ''X'', ustr ''10'', ustr ''0'', ustr ''0'', ustr ''0'', ustr ''0''],
         [ustr ''B'', ustr ''X'', ustr ''5'', ustr ''0'', ustr ''0'', ustr ''0'', ustr ''0''],
         [ustr ''C'', ustr ''Y'', ustr ''20'', ustr ''0'', ustr ''0'', ustr ''0'', ustr ''0''],
         [ustr ''TOTALT'', [], ustr ''35'', ustr ''0'', ustr ''0'', ustr ''0'', ustr ''0'']]\<rparr>"

definition bea_table :: season_table where
  "bea_table =
     \<lparr>thead = Some example_headers,
      tbody =
        [[ustr ''C'', ustr ''Y'', ustr ''30'', ustr ''0'', ustr ''0'', ustr ''0'', ustr ''0''],
         [ustr ''D'', ustr ''Z'', ustr ''1'', ustr ''0'', ustr ''0'', ustr ''0'', ustr ''0'']]\<rparr>"

definition idle_table :: season_table where
  "idle_table =
     \<lparr>thead = Some example_headers,
      tbody =
        [[ustr ''A'', ustr ''X'', ustr ''0'', ustr ''0'', ustr ''0'', ustr ''0'', ustr ''0'']]\<rparr>"

definition site_roster :: "roster_row list" where
  "site_roster =
     [\<lparr>name_text = ustr ''Anna'', position = PStr (ustr ''Forward''),
       href = PStr (ustr ''/spelare/5'')\<rparr>,
      \<lparr>name_text = ustr ''Bea'', position = PStr (ustr ''Back''),
       href = PStr (ustr ''/spelare/6'')\<rparr>]"

definition site_world :: world where
  "site_world =
     \<lparr>browse = (\<lambda>url. if url = BASE_URL @ ustr ''/spelare/5'' then Inr (Some anna_table)
                        else Inr (Some bea_table)),
      read_back = map csv_row\<rparr>"

definition offline_world :: world where
  "offline_world = \<lparr>browse = (\<lambda>url. Inl FetchError), read_back = map csv_row\<rparr>"

definition idle_world :: world where
  "idle_world = \<lparr>browse = (\<lambda>url. Inr (Some idle_table)), read_back = map csv_row\<rparr>"




section \<open>Evaluation at concrete inputs\<close>

lemmas text_eval = ustr_def strip_def trim_def isspace_def latin1_lib_def

lemmas extract_eval = text_eval col_map_def headers_of_def headed_table_def
  headerless_table_def example_headers_def key_competition_def key_team_def key_matches_def
  key_goals_def key_assists_def key_points_def key_penalty_def extract_rows_def row_of_def
  field_of_def td_text_def example_rows_def

lemmas table_eval = raw_of_def balanced_table_def unbalanced_table_def cap_table_def
  df_app_of_def df_total_of_def coerce_matches_def is_total_def safe_int_def
  pivot_of_def players_per_league_of_def pivot_table_def Let_def agg_sum_def agg_max_def
  played_flag_def row_sum_def col_sum_def validation_def frame_empty_def
  analyze_table_def stacked_charts_def per_league_charts_def

lemmas int_eval = int_of_str_def int_space_def digits_to_nat_def digit_value_def

lemmas run_eval = extract_eval table_eval int_eval csv_cell_def csv_row_def anna_table_def
  bea_table_def idle_table_def site_roster_def site_world_def offline_world_def idle_world_def
  analyze_trupp_def fetch_player_appearances_def href_full_def BASE_URL_def pos_prefix_def
  skip_row_def str_isdigit_def appearance_of_def

section \<open>Properties of numeric coercion\<close>










lemma dropWhile_hd: "xs \<noteq> [] \<Longrightarrow> \<not> P (hd xs) \<Longrightarrow> dropWhile P xs = xs"
  by (cases xs) auto

lemma trim_id:
  assumes "s \<noteq> []" "\<not> P (hd s)" "\<not> P (last s)"
  shows "trim P s = s"
proof -
  have a: "dropWhile P s = s" using assms(1,2) by (rule dropWhile_hd)
  have "hd (rev s) = last s" using assms(1) by (simp only: hd_rev)
  with assms have "dropWhile P (rev s) = rev s"
    by (intro dropWhile_hd) simp_all
  with a show ?thesis by (simp add: trim_def)
qed








section \<open>Properties of trimming\<close>

lemma trim_Nil_iff: "trim P s = [] \<longleftrightarrow> (\<forall>x\<in>set s. P x)"
proof -
  let ?t = "dropWhile P s"
  have "trim P s = [] \<longleftrightarrow> (\<forall>x\<in>set ?t. P x)"
    by (simp add: trim_def dropWhile_eq_Nil_conv)
  also have "\<dots> \<longleftrightarrow> ?t = []"
  proof
    assume a: "\<forall>x\<in>set ?t. P x"
    show "?t = []"
    proof (rule ccontr)
      assume ne: "?t \<noteq> []"
      then have "\<not> P (hd ?t)" by (rule hd_dropWhile)
      moreover have "hd ?t \<in> set ?t" using ne by simp
      ultimately show False using a by blast
    qed
  next
    assume "?t = []"
    then show "\<forall>x\<in>set ?t. P x" by (simp only: list.set ball_empty)
  qed
  also have "\<dots> \<longleftrightarrow> (\<forall>x\<in>set s. P x)"
    by (simp add: dropWhile_eq_Nil_conv)
  finally show ?thesis .
qed

lemma trim_hd:
  assumes "trim P s \<noteq> []"
  shows "\<not> P (hd (trim P s))"
proof -
  let ?t = "dropWhile P s"
  let ?u = "dropWhile P (rev ?t)"
  from assms have une: "?u \<noteq> []" by (simp add: trim_def)
  then have tne: "?t \<noteq> []" by (metis dropWhile.simps(1) rev.simps(1))
  have "rev ?t = takeWhile P (rev ?t) @ ?u" by simp
  then have "last (rev ?t) = last ?u" using une by (metis last_appendR)
  moreover have "last (rev ?t) = hd ?t" using tne by (simp add: last_rev)
  moreover have "hd (rev ?u) = last ?u" using une by (simp only: hd_rev)
  ultimately have "hd (trim P s) = hd ?t" by (simp add: trim_def)
  moreover have "\<not> P (hd ?t)" using tne by (rule hd_dropWhile)
  ultimately show ?thesis by simp
qed

lemma trim_last:
  assumes "trim P s \<noteq> []"
  shows "\<not> P (last (trim P s))"
proof -
  let ?u = "dropWhile P (rev (dropWhile P s))"
  from assms have une: "?u \<noteq> []" by (simp add: trim_def)
  then have "last (rev ?u) = hd ?u" by (simp add: last_rev)
  moreover have "\<not> P (hd ?u)" using une by (rule hd_dropWhile)
  ultimately show ?thesis by (simp add: trim_def)
qed

lemma trim_trim: "trim P (trim P s) = trim P s"
proof (cases "trim P s = []")
  case True
  have "trim P [] = []" by (simp add: trim_def)
  with True show ?thesis by (simp only:)
next
  case False
  show ?thesis
    by (rule trim_id [OF False trim_hd [OF False] trim_last [OF False]])
qed

lemma strip_strip: "strip (strip s) = strip s"
  unfolding strip_def by (rule trim_trim)

lemma strip_empty_iff: "strip s = [] \<longleftrightarrow> list_all isspace s"
  by (simp add: strip_def trim_Nil_iff list_all_iff)

section \<open>Properties of row extraction\<close>

lemma col_fold_None:
  "fold (\<lambda>(i, h) m. m(f h \<mapsto> i)) (enumerate n hs) m0 k = None \<longleftrightarrow>
     m0 k = None \<and> k \<notin> f ` set hs"
  by (induction hs arbitrary: n m0) auto

lemma col_fold_Some:
  "fold (\<lambda>(i, h) m. m(f h \<mapsto> i)) (enumerate n hs) m0 k = Some i \<Longrightarrow>
     m0 k = Some i \<or> (n \<le> i \<and> i < n + length hs \<and> f (hs ! (i - n)) = k)"
proof (induction hs arbitrary: n m0)
  case Nil
  then show ?case by simp
next
  case (Cons h hs)
  from Cons.prems have
    "fold (\<lambda>(i, h) m. m(f h \<mapsto> i)) (enumerate (Suc n) hs) (m0(f h \<mapsto> n)) k = Some i"
    by (simp del: fun_upd_apply)
  from Cons.IH [OF this] show ?case
  proof
    assume "(m0(f h \<mapsto> n)) k = Some i"
    then show ?thesis by (auto split: if_splits)
  next
    assume a: "Suc n \<le> i \<and> i < Suc n + length hs \<and> f (hs ! (i - Suc n)) = k"
    then have "(h # hs) ! (i - n) = hs ! (i - Suc n)"
      by (metis Suc_diff_Suc Suc_le_lessD nth_Cons_Suc)
    with a show ?thesis by auto
  qed
qed

lemma col_map_None: "col_map L hs k = None \<longleftrightarrow> k \<notin> set (map (lower L) hs)"
  by (simp add: col_map_def col_fold_None)

lemma col_map_Some:
  "col_map L hs k = Some i \<Longrightarrow> i < length hs \<and> lower L (hs ! i) = k"
  using col_fold_Some [of "lower L" 0 hs Map.empty k i] by (simp add: col_map_def)

lemma field_of_resolved:
  assumes "length hs \<le> length tds"
  shows "field_of (col_map L hs) key dflt tds =
     Inr (case col_map L hs key of None \<Rightarrow> [] | Some i \<Rightarrow> strip (tds ! i))"
proof (cases "col_map L hs key")
  case None
  then show ?thesis by (simp add: field_of_def)
next
  case (Some i)
  with col_map_Some [OF Some] assms show ?thesis
    by (simp add: field_of_def td_text_def)
qed

lemma row_of_resolved:
  assumes "length hs \<le> length tds"
  shows "row_of (col_map L hs) tds =
     Inr \<lparr>competition = (case col_map L hs key_competition of None \<Rightarrow> [] | Some i \<Rightarrow> strip (tds ! i)),
          pr_team = (case col_map L hs key_team of None \<Rightarrow> [] | Some i \<Rightarrow> strip (tds ! i)),
          pr_matches = (case col_map L hs key_matches of None \<Rightarrow> [] | Some i \<Rightarrow> strip (tds ! i)),
          pr_goals = (case col_map L hs key_goals of None \<Rightarrow> [] | Some i \<Rightarrow> strip (tds ! i)),
          pr_assists = (case col_map L hs key_assists of None \<Rightarrow> [] | Some i \<Rightarrow> strip (tds ! i)),
          pr_points = (case col_map L hs key_points of None \<Rightarrow> [] | Some i \<Rightarrow> strip (tds ! i)),
          pr_penalty = (case col_map L hs key_penalty of None \<Rightarrow> [] | Some i \<Rightarrow> strip (tds ! i))\<rparr>"
  unfolding row_of_def by (simp only: field_of_resolved [OF assms] bind_err.simps)

lemma table_rows_resolved:
  "table_rows (col_map L hs) (length hs) trs =
     Inr (map (\<lambda>tds.
       \<lparr>competition = (case col_map L hs key_competition of None \<Rightarrow> [] | Some i \<Rightarrow> strip (tds ! i)),
        pr_team = (case col_map L hs key_team of None \<Rightarrow> [] | Some i \<Rightarrow> strip (tds ! i)),
        pr_matches = (case col_map L hs key_matches of None \<Rightarrow> [] | Some i \<Rightarrow> strip (tds ! i)),
        pr_goals = (case col_map L hs key_goals of None \<Rightarrow> [] | Some i \<Rightarrow> strip (tds ! i)),
        pr_assists = (case col_map L hs key_assists of None \<Rightarrow> [] | Some i \<Rightarrow> strip (tds ! i)),
        pr_points = (case col_map L hs key_points of None \<Rightarrow> [] | Some i \<Rightarrow> strip (tds ! i)),
        pr_penalty = (case col_map L hs key_penalty of None \<Rightarrow> [] | Some i \<Rightarrow> strip (tds ! i))\<rparr>)
       (filter (\<lambda>tds. tds \<noteq> [] \<and> length hs \<le> length tds) trs))"
proof (induction trs)
  case Nil
  show ?case by simp
next
  case (Cons tds trs)
  show ?case
  proof (cases "tds = [] \<or> length tds < length hs")
    case True
    with Cons show ?thesis by auto
  next
    case False
    then have le: "length hs \<le> length tds" by simp
    from False Cons show ?thesis
      by (simp add: row_of_resolved [OF le])
  qed
qed

text \<open>
  C2, as the code has it. Every extracted row comes from a body row that has at least one
  cell and at least as many cells as there are headers, in order. Each of the seven
  fields is resolved through the map from the lower-cased header texts to their column
  index: when the header name is present, the field is the trimmed text of the cell in
  that column; when it is absent, the field is the empty string. No row raises.
\<close>

theorem header_resolution:
  fixes L :: "'a pylib_scheme" and t :: season_table
  defines "cm \<equiv> col_map L (headers_of t)"
  defines "sel \<equiv> \<lambda>key tds. case cm key of None \<Rightarrow> [] | Some i \<Rightarrow> strip (tds ! i)"
  shows "extract_rows L t =
     Inr (map (\<lambda>tds.
            \<lparr>competition = sel key_competition tds, pr_team = sel key_team tds,
             pr_matches = sel key_matches tds, pr_goals = sel key_goals tds,
             pr_assists = sel key_assists tds, pr_points = sel key_points tds,
             pr_penalty = sel key_penalty tds\<rparr>)
          (filter (\<lambda>tds. tds \<noteq> [] \<and> length (headers_of t) \<le> length tds) (tbody t))) \<and>
     (\<forall>key. cm key = None \<longleftrightarrow> key \<notin> set (map (lower L) (headers_of t))) \<and>
     (\<forall>key i. cm key = Some i \<longrightarrow> i < length (headers_of t) \<and> lower L (headers_of t ! i) = key)"
  unfolding cm_def sel_def extract_rows_def Let_def
  using col_map_None col_map_Some table_rows_resolved by blast

theorem header_resolution_witness:
  "extract_rows latin1_lib headerless_table =
     Inr [\<lparr>competition = [], pr_team = [], pr_matches = [], pr_goals = [], pr_assists = [],
           pr_points = [], pr_penalty = []\<rparr>] \<and>
   col_map latin1_lib (headers_of headed_table) key_goals = Some 3 \<and>
   3 < length (headers_of headed_table) \<and>
   lower latin1_lib (headers_of headed_table ! 3) = key_goals"
proof -
  have c: "col_map latin1_lib (headers_of headed_table) key_goals = Some 3"
    by (simp add: extract_eval)
  have e: "extract_rows latin1_lib headerless_table =
     Inr [\<lparr>competition = [], pr_team = [], pr_matches = [], pr_goals = [], pr_assists = [],
           pr_points = [], pr_penalty = []\<rparr>]"
    by (simp add: extract_eval)
  from header_resolution [of latin1_lib headed_table] c
  have "3 < length (headers_of headed_table) \<and>
        lower latin1_lib (headers_of headed_table ! 3) = key_goals"
    by blast
  with c e show ?thesis by simp
qed

text \<open>
  C2, as the claim states it, fails on a table without a header row: the row
  (Div1, X, 3, 1, 0, 1, 2) yields seven empty fields, not the texts of the cells at the
  positions 0 to 6.
\<close>

theorem positional_fallback_counterexample:
  "col_map latin1_lib (headers_of headerless_table) key_competition = None \<and>
   extract_rows latin1_lib headerless_table =
     Inr [\<lparr>competition = [], pr_team = [], pr_matches = [], pr_goals = [], pr_assists = [],
           pr_points = [], pr_penalty = []\<rparr>] \<and>
   extract_rows latin1_lib headerless_table \<noteq>
     Inr [\<lparr>competition = ustr ''Div1'', pr_team = ustr ''X'', pr_matches = ustr ''3'',
           pr_goals = ustr ''1'', pr_assists = ustr ''0'', pr_points = ustr ''1'',
           pr_penalty = ustr ''2''\<rparr>]"
  by (simp add: extract_eval)

section \<open>Properties of the appearance filter\<close>

lemma collect_rows_append:
  "collect_rows L lbl rows acc =
     acc @ map (appearance_of lbl) (filter (\<lambda>pr. \<not> skip_row L (competition pr)) rows)"
  by (induction rows arbitrary: acc) simp_all

lemma skip_row_general:
  "\<not> skip_row L c \<longleftrightarrow> c \<noteq> [] \<and> \<not> list_all isspace c \<and> \<not> str_isdigit L (strip c)"
  by (auto simp: skip_row_def strip_empty_iff)

lemma skip_row_stripped:
  assumes "strip c = c"
  shows "\<not> skip_row L c \<longleftrightarrow> c \<noteq> [] \<and> \<not> list_all isspace c \<and> \<not> list_all (isdigit L) c"
  using assms strip_empty_iff [of c] by (auto simp: skip_row_def str_isdigit_def)

lemma td_text_stripped: "td_text tds i = Inr x \<Longrightarrow> strip x = x"
  by (auto simp: td_text_def strip_strip split: if_splits)

lemma strip_Nil: "strip [] = []"
  by (simp add: strip_def trim_def)

lemma field_of_stripped: "field_of cm k d tds = Inr x \<Longrightarrow> strip x = x"
  by (auto simp: field_of_def strip_Nil dest: td_text_stripped split: if_splits)

lemma bind_err_Inr: "bind_err m f = Inr y \<longleftrightarrow> (\<exists>x. m = Inr x \<and> f x = Inr y)"
  by (cases m) simp_all

lemma row_of_stripped: "row_of cm tds = Inr r \<Longrightarrow> strip (competition r) = competition r"
  unfolding row_of_def bind_err_Inr
  by (auto dest: field_of_stripped)

lemma table_rows_stripped:
  "table_rows cm n trs = Inr rows \<Longrightarrow> r \<in> set rows \<Longrightarrow> strip (competition r) = competition r"
proof (induction trs arbitrary: rows)
  case Nil
  then show ?case by simp
next
  case (Cons tds trs)
  show ?case
  proof (cases "tds = [] \<or> length tds < n")
    case True
    with Cons show ?thesis by simp
  next
    case False
    with Cons.prems(1) obtain r0 rs where
      r0: "row_of cm tds = Inr r0" and rs: "table_rows cm n trs = Inr rs" and rows: "rows = r0 # rs"
      by (auto simp: bind_err_Inr)
    with Cons.prems(2) Cons.IH [OF rs] row_of_stripped [OF r0] show ?thesis by auto
  qed
qed

lemma extract_rows_stripped:
  "extract_rows L t = Inr rows \<Longrightarrow> r \<in> set rows \<Longrightarrow> strip (competition r) = competition r"
  unfolding extract_rows_def Let_def by (rule table_rows_stripped)

text \<open>
  C6. For the rows that the extraction returns, the inner loop appends one record per row
  whose competition field is non-empty, not whitespace-only and not composed entirely of
  digits, in the order of the rows, and appends nothing for any other row.
\<close>

theorem aggregator_filter:
  assumes "extract_rows L t = Inr player_rows"
  shows "collect_rows L player_label player_rows appearances =
     appearances @ map (appearance_of player_label)
       (filter (\<lambda>pr. competition pr \<noteq> [] \<and> \<not> list_all isspace (competition pr) \<and>
                      \<not> list_all (isdigit L) (competition pr)) player_rows)"
proof -
  have "filter (\<lambda>pr. \<not> skip_row L (competition pr)) player_rows =
        filter (\<lambda>pr. competition pr \<noteq> [] \<and> \<not> list_all isspace (competition pr) \<and>
                      \<not> list_all (isdigit L) (competition pr)) player_rows"
    by (rule filter_cong [OF refl])
       (use extract_rows_stripped [OF assms] skip_row_stripped in blast)
  then show ?thesis by (simp add: collect_rows_append)
qed

theorem aggregator_filter_witness:
  "extract_rows latin1_lib headed_table = Inr example_rows \<and>
   map division (collect_rows latin1_lib (ustr ''F-Anna'') example_rows []) =
     [ustr ''Div1'', ustr ''TOTALT'']"
proof -
  have e: "extract_rows latin1_lib headed_table = Inr example_rows"
    by (simp add: extract_eval)
  have "map division (collect_rows latin1_lib (ustr ''F-Anna'') example_rows []) =
     [ustr ''Div1'', ustr ''TOTALT'']"
    unfolding aggregator_filter [OF e, of "ustr ''F-Anna''" "[]"]
    by (simp add: example_rows_def appearance_of_def text_eval)
  with e show ?thesis by simp
qed

section \<open>Properties of the player-by-division matrix\<close>

lemma sum_list_indicator_0:
  "x \<notin> set ds \<Longrightarrow> sum_list (map (\<lambda>d. if x = d then a else 0) ds) = (0::int)"
  by (induction ds) auto

lemma sum_list_indicator:
  "distinct ds \<Longrightarrow> x \<in> set ds \<Longrightarrow> sum_list (map (\<lambda>d. if x = d then a else 0) ds) = (a::int)"
  by (induction ds) (auto simp: sum_list_indicator_0)

lemma sum_list_partition:
  fixes v :: "'r \<Rightarrow> int"
  assumes "distinct ds" and "\<forall>r\<in>set rs. \<exists>d\<in>set ds. g r = Some d"
  shows "sum_list (map (\<lambda>d. sum_list (map v (filter (\<lambda>r. g r = Some d) rs))) ds) =
         sum_list (map v rs)"
  using assms(2)
proof (induction rs)
  case Nil
  show ?case by simp
next
  case (Cons r rs)
  then obtain d0 where d0: "d0 \<in> set ds" "g r = Some d0" by auto
  have "sum_list (map (\<lambda>d. sum_list (map v (filter (\<lambda>r. g r = Some d) (r # rs)))) ds) =
        sum_list (map (\<lambda>d. (if d0 = d then v r else 0) +
                             sum_list (map v (filter (\<lambda>r. g r = Some d) rs))) ds)"
    by (rule arg_cong [where f = sum_list], rule map_cong [OF refl]) (auto simp: d0)
  also have "\<dots> = sum_list (map (\<lambda>d. if d0 = d then v r else 0) ds) +
        sum_list (map (\<lambda>d. sum_list (map v (filter (\<lambda>r. g r = Some d) rs))) ds)"
    by (rule sum_list_addf)
  also have "\<dots> = v r + sum_list (map v rs)"
    using Cons sum_list_indicator [OF assms(1) d0(1)] by simp
  finally show ?case by simp
qed

lemma agg_sum_case:
  "(case xs of [] \<Rightarrow> 0 | v # vs \<Rightarrow> agg_sum v vs) = sum_list xs"
  by (cases xs) (simp_all add: agg_sum_def)

lemma pivot_of_cell:
  "cell (pivot_of df) p d =
     sum_list (map matches (filter (\<lambda>r. player r = p \<and> division r = Some d) df))"
  by (simp add: pivot_of_def pivot_table_def Let_def agg_sum_case)

lemma pivot_of_columns_distinct: "distinct (columns (pivot_of df))"
  by (simp add: pivot_of_def pivot_table_def Let_def)

lemma set_map_filter: "set (List.map_filter f xs) = {y. \<exists>x\<in>set xs. f x = Some y}"
  by (induction xs) (auto split: option.splits)

lemma pivot_of_columns_set:
  "set (columns (pivot_of df)) = {d. \<exists>r\<in>set df. division r = Some d}"
  by (auto simp: pivot_of_def pivot_table_def Let_def set_map_filter)


lemma df_app_of_division: "r \<in> set (df_app_of L raw) \<Longrightarrow> \<exists>d. division r = Some d \<and> d \<noteq> []"
  by (auto simp: df_app_of_def)

lemma df_app_of_matches: "r \<in> set (df_app_of L raw) \<Longrightarrow> 0 < matches r"
  by (auto simp: df_app_of_def)

lemma pivot_of_row_sum:
  assumes "\<forall>r\<in>set df. division r \<noteq> None"
  shows "row_sum (pivot_of df) p = sum_list (map matches (filter (\<lambda>r. player r = p) df))"
proof -
  let ?rs = "filter (\<lambda>r. player r = p) df"
  have cover: "\<forall>r\<in>set ?rs. \<exists>d\<in>set (columns (pivot_of df)). division r = Some d"
  proof
    fix r assume "r \<in> set ?rs"
    then have r: "r \<in> set df" by simp
    with assms obtain d where d: "division r = Some d" by auto
    with r have "d \<in> set (columns (pivot_of df))"
      unfolding pivot_of_columns_set by blast
    with d show "\<exists>d\<in>set (columns (pivot_of df)). division r = Some d" by blast
  qed
  have "row_sum (pivot_of df) p =
        sum_list (map (\<lambda>d. sum_list (map matches (filter (\<lambda>r. division r = Some d) ?rs)))
                    (columns (pivot_of df)))"
  proof -
    have "cell (pivot_of df) p =
          (\<lambda>d. sum_list (map matches (filter (\<lambda>r. division r = Some d) ?rs)))"
      by (rule ext) (simp add: pivot_of_cell)
    then show ?thesis by (simp only: row_sum_def)
  qed
  also have "\<dots> = sum_list (map matches ?rs)"
    by (rule sum_list_partition [OF pivot_of_columns_distinct cover])
  finally show ?thesis .
qed

lemma sum_list_pos_nonneg: "\<forall>x\<in>set xs. 0 < f x \<Longrightarrow> (0::int) \<le> sum_list (map f xs)"
  by (induction xs) auto

text \<open>
  C8. In the player-by-division matrix built from the filtered appearance rows, every
  cell is the sum of the match counts of the rows of that player and division (0 when
  there is none), it is not negative, and the sum of a player's row over all divisions is
  the sum of the match counts of all of that player's filtered rows.
\<close>

theorem pivot_cells:
  fixes L :: "'a pylib_scheme" and raw :: "raw_row list"
  defines "df \<equiv> df_app_of L raw"
  defines "pivot \<equiv> pivot_of df"
  shows "cell pivot p d =
           sum_list (map matches (filter (\<lambda>r. player r = p \<and> division r = Some d) df)) \<and>
         0 \<le> cell pivot p d \<and>
         row_sum pivot p = sum_list (map matches (filter (\<lambda>r. player r = p) df))"
proof -
  have "\<forall>r\<in>set (filter (\<lambda>r. player r = p \<and> division r = Some d) df). 0 < matches r"
    using df_app_of_matches by (auto simp: df_def)
  then have "0 \<le> cell pivot p d"
    unfolding pivot_def pivot_of_cell by (rule sum_list_pos_nonneg)
  moreover have "\<forall>r\<in>set df. division r \<noteq> None"
    using df_app_of_division by (fastforce simp: df_def)
  ultimately show ?thesis
    unfolding pivot_def by (simp add: pivot_of_cell pivot_of_row_sum)
qed

theorem pivot_cells_witness:
  "cell (pivot_of (df_app_of latin1_lib cap_table)) (ustr ''F-Anna'') (ustr ''C'') = 20 \<and>
   cell (pivot_of (df_app_of latin1_lib cap_table)) (ustr ''F-Anna'') (ustr ''D'') = 0 \<and>
   row_sum (pivot_of (df_app_of latin1_lib cap_table)) (ustr ''F-Anna'') = 35"
proof -
  have c: "sum_list (map matches (filter (\<lambda>r. player r = ustr ''F-Anna'' \<and> division r = Some (ustr ''C''))
             (df_app_of latin1_lib cap_table))) = 20"
    by (simp add: text_eval table_eval)
  have d: "sum_list (map matches (filter (\<lambda>r. player r = ustr ''F-Anna'' \<and> division r = Some (ustr ''D''))
             (df_app_of latin1_lib cap_table))) = 0"
    by (simp add: text_eval table_eval)
  have r: "sum_list (map matches (filter (\<lambda>r. player r = ustr ''F-Anna'')
             (df_app_of latin1_lib cap_table))) = 35"
    by (simp add: text_eval table_eval)
  from pivot_cells [of latin1_lib cap_table "ustr ''F-Anna''" "ustr ''C''"]
       pivot_cells [of latin1_lib cap_table "ustr ''F-Anna''" "ustr ''D''"] c d r
  show ?thesis by (simp only:)
qed

section \<open>Properties of the participation matrix\<close>

lemma fold_max_01:
  fixes v :: int
  assumes "\<forall>x\<in>set (v # vs). x = 0 \<or> x = 1"
  shows "(fold max vs v = 0 \<or> fold max vs v = 1) \<and> (fold max vs v = 1 \<longleftrightarrow> 1 \<in> set (v # vs))"
  using assms
proof (induction vs arbitrary: v)
  case Nil
  then show ?case by auto
next
  case (Cons x xs)
  have "\<forall>y\<in>set (max x v # xs). y = 0 \<or> y = 1"
    using Cons.prems by (auto simp: max_def)
  from Cons.IH [OF this] Cons.prems show ?case
    by (auto simp: max_def split: if_splits)
qed

lemma played_flag_01: "played_flag r = 0 \<or> played_flag r = 1"
  by (simp add: played_flag_def)

lemma played_flag_1: "played_flag r = 1 \<longleftrightarrow> 0 < matches r"
  by (simp add: played_flag_def)

lemma participation_cell:
  "(cell (players_per_league_of df) d p = 0 \<or> cell (players_per_league_of df) d p = 1) \<and>
   (cell (players_per_league_of df) d p = 1 \<longleftrightarrow>
      (\<exists>r\<in>set df. division r = Some d \<and> player r = p \<and> 0 < matches r))"
proof -
  let ?g = "filter (\<lambda>r. division r = Some d \<and> player r = p) df"
  show ?thesis
  proof (cases ?g)
    case Nil
    then have "\<not> (\<exists>r\<in>set df. division r = Some d \<and> player r = p)"
      by (auto simp: filter_empty_conv)
    with Nil show ?thesis
      by (auto simp: players_per_league_of_def pivot_table_def Let_def)
  next
    case (Cons r rs)
    have c: "cell (players_per_league_of df) d p =
             fold max (map played_flag rs) (played_flag r)"
      by (simp add: players_per_league_of_def pivot_table_def Let_def Cons agg_max_def)
    have "\<forall>x\<in>set (played_flag r # map played_flag rs). x = 0 \<or> x = 1"
      using played_flag_01 by auto
    from fold_max_01 [OF this]
    have A: "fold max (map played_flag rs) (played_flag r) = 0 \<or>
           fold max (map played_flag rs) (played_flag r) = 1"
      and B: "fold max (map played_flag rs) (played_flag r) = 1 \<longleftrightarrow>
             1 \<in> set (played_flag r # map played_flag rs)"
      by blast+
    have S: "set (played_flag r # map played_flag rs) = played_flag ` set ?g"
      unfolding Cons by simp
    have "(cell (players_per_league_of df) d p = 0 \<or> cell (players_per_league_of df) d p = 1) \<and>
          (cell (players_per_league_of df) d p = 1 \<longleftrightarrow> 1 \<in> played_flag ` set ?g)"
      using A B unfolding c S by blast
    moreover have "1 \<in> played_flag ` set ?g \<longleftrightarrow>
        (\<exists>r\<in>set df. division r = Some d \<and> player r = p \<and> 0 < matches r)"
      by (auto simp: played_flag_1 image_iff)
    ultimately show ?thesis by blast
  qed
qed

text \<open>
  C7. In the division-by-player matrix built from the filtered appearance rows, every
  cell is 0 or 1, and a cell is 1 exactly when some filtered row of that division and
  player has a positive match count: rows of several teams collapse into one flag.
\<close>

theorem participation_cells:
  fixes L :: "'a pylib_scheme" and raw :: "raw_row list"
  defines "df \<equiv> df_app_of L raw"
  defines "players_per_league \<equiv> players_per_league_of df"
  shows "(cell players_per_league d p = 0 \<or> cell players_per_league d p = 1) \<and>
         (cell players_per_league d p = 1 \<longleftrightarrow>
            (\<exists>r\<in>set df. division r = Some d \<and> player r = p \<and> 0 < matches r))"
  unfolding players_per_league_def by (rule participation_cell)

theorem participation_cells_witness:
  "cell (players_per_league_of (df_app_of latin1_lib cap_table)) (ustr ''C'') (ustr ''B-Bea'') = 1 \<and>
   cell (players_per_league_of (df_app_of latin1_lib cap_table)) (ustr ''A'') (ustr ''B-Bea'') = 0"
proof -
  have ex: "\<exists>r\<in>set (df_app_of latin1_lib cap_table).
      division r = Some (ustr ''C'') \<and> player r = ustr ''B-Bea'' \<and> 0 < matches r"
    by (simp add: text_eval table_eval)
  have nex: "\<not> (\<exists>r\<in>set (df_app_of latin1_lib cap_table).
      division r = Some (ustr ''A'') \<and> player r = ustr ''B-Bea'' \<and> 0 < matches r)"
    by (simp add: text_eval table_eval)
  from participation_cells [of latin1_lib cap_table "ustr ''C''" "ustr ''B-Bea''"] ex
  have one: "cell (players_per_league_of (df_app_of latin1_lib cap_table)) (ustr ''C'')
      (ustr ''B-Bea'') = 1"
    by blast
  from participation_cells [of latin1_lib cap_table "ustr ''A''" "ustr ''B-Bea''"] nex
  have "cell (players_per_league_of (df_app_of latin1_lib cap_table)) (ustr ''A'')
      (ustr ''B-Bea'') = 0"
    by blast
  with one show ?thesis by (simp only: simp_thms)
qed

section \<open>Properties of the validation\<close>





section \<open>Empty results\<close>






section \<open>The display caps\<close>

text \<open>
  C1, at a concrete input. The divisions A, B, C, D have the match totals 10, 5, 50, 1,
  and \<open>max_divisions\<close> is 2: the stacked chart is drawn from the matrix with all four
  divisions, in the sorted order of their names, not from the two with the totals 50 and
  10.
\<close>

theorem division_cap_ignored:
  "(case analyze_trupp latin1_lib site_world site_roster [] 2 12 of
      Inl e \<Rightarrow> []
    | Inr out \<Rightarrow> map (\<lambda>M. (columns M, map (col_sum M) (columns M))) (stacked_charts out)) =
   [([ustr ''A'', ustr ''B'', ustr ''C'', ustr ''D''], [10, 5, 50, 1])]"
  by (simp add: run_eval)

text \<open>
  C3, at a concrete input. The divisions A, B, C, D have 1, 1, 2, 1 distinct players, and
  \<open>max_leagues\<close> is 1: the second chart is drawn from the matrix with all four divisions,
  not from the one division with two players.
\<close>

theorem league_cap_ignored:
  "(case analyze_trupp latin1_lib site_world site_roster [] 8 1 of
      Inl e \<Rightarrow> []
    | Inr out \<Rightarrow> map (\<lambda>M. (index M, map (row_sum M) (index M))) (per_league_charts out)) =
   [([ustr ''A'', ustr ''B'', ustr ''C'', ustr ''D''], [1, 1, 2, 1])]"
  by (simp add: run_eval)

section \<open>Properties of name normalisation\<close>
























end
